theory Spec2Isabelle
  imports Main
begin

section \<open>Token bucket rate limiter (src/joke-generator/lib/rate-limiter.ts)\<close>

text \<open>
  Counts and millisecond timestamps are JavaScript numbers holding integers; they are
  modelled as \<open>int\<close>. Every read of \<open>Date.now()\<close> is an explicit argument \<open>now\<close> of the
  method that performs it, and every method returns the limiter it leaves behind.
\<close>

record RateLimiterState =
  tokens :: int
  lastRefill :: int

record RateLimiterConfig =
  maxRequests :: int
  windowMs :: int

record RateLimiter =
  state :: RateLimiterState
  config :: RateLimiterConfig

text \<open>The constructor; \<open>now\<close> is the clock value read while constructing.\<close>

definition new_RateLimiter :: "RateLimiterConfig \<Rightarrow> int \<Rightarrow> RateLimiter" where
  "new_RateLimiter cfg now =
     \<lparr> state = \<lparr> tokens = maxRequests cfg, lastRefill = now \<rparr>, config = cfg \<rparr>"

definition refill :: "int \<Rightarrow> RateLimiter \<Rightarrow> RateLimiter" where
  "refill now rl =
     (let timePassed = now - lastRefill (state rl) in
      if timePassed \<ge> windowMs (config rl)
      then rl \<lparr> state := \<lparr> tokens = maxRequests (config rl), lastRefill = now \<rparr> \<rparr>
      else rl)"

definition tryConsume :: "int \<Rightarrow> RateLimiter \<Rightarrow> bool \<times> RateLimiter" where
  "tryConsume now rl =
     (let rl1 = refill now rl in
      if tokens (state rl1) > 0
      then (True, rl1 \<lparr> state := (state rl1) \<lparr> tokens := tokens (state rl1) - 1 \<rparr> \<rparr>)
      else (False, rl1))"


definition getTimeUntilRefill :: "int \<Rightarrow> RateLimiter \<Rightarrow> int" where
  "getTimeUntilRefill now rl =
     (let timeSinceRefill = now - lastRefill (state rl) in
      max 0 (windowMs (config rl) - timeSinceRefill))"

definition createDefaultRateLimiter :: "int \<Rightarrow> RateLimiter" where
  "createDefaultRateLimiter now =
     new_RateLimiter \<lparr> maxRequests = 10, windowMs = 60 * 1000 \<rparr> now"

subsection \<open>Sequences of calls\<close>

text \<open>
  \<open>consumeAt ts rl\<close> is the limiter after successive calls of \<open>tryConsume\<close>, one for each
  element of \<open>ts\<close>, which is the clock value that call reads.
\<close>

fun consumeAt :: "int list \<Rightarrow> RateLimiter \<Rightarrow> RateLimiter" where
  "consumeAt [] rl = rl"
| "consumeAt (t # ts) rl = consumeAt ts (snd (tryConsume t rl))"





section \<open>Type declarations (lib/types.ts of the two modules)\<close>

text \<open>
  The string literal unions of the source are datatypes, each with the function giving the
  string it is at run time. The token bucket module declares \<open>JokeCategory\<close> without
  \<open>'Any'\<close>; the one datatype below is the larger union of the client module, so a statement
  for all its values covers every category either module accepts.
\<close>

datatype JokeCategory = Programming | Misc | Dark | Pun | Spooky | Christmas | Any

fun JokeCategory_str :: "JokeCategory \<Rightarrow> string" where
  "JokeCategory_str Programming = ''Programming''"
| "JokeCategory_str Misc = ''Misc''"
| "JokeCategory_str Dark = ''Dark''"
| "JokeCategory_str Pun = ''Pun''"
| "JokeCategory_str Spooky = ''Spooky''"
| "JokeCategory_str Christmas = ''Christmas''"
| "JokeCategory_str Any = ''Any''"

datatype JokeType = single | twopart

fun JokeType_str :: "JokeType \<Rightarrow> string" where
  "JokeType_str single = ''single''"
| "JokeType_str twopart = ''twopart''"

record JokeFlags =
  nsfw :: bool
  religious :: bool
  political :: bool
  racist :: bool
  sexist :: bool
  explicit :: bool

text \<open>\<open>keyof JokeFlags\<close>: the six field names as values.\<close>

datatype JokeFlagKey = key_nsfw | key_religious | key_political | key_racist | key_sexist | key_explicit

fun JokeFlagKey_str :: "JokeFlagKey \<Rightarrow> string" where
  "JokeFlagKey_str key_nsfw = ''nsfw''"
| "JokeFlagKey_str key_religious = ''religious''"
| "JokeFlagKey_str key_political = ''political''"
| "JokeFlagKey_str key_racist = ''racist''"
| "JokeFlagKey_str key_sexist = ''sexist''"
| "JokeFlagKey_str key_explicit = ''explicit''"

subsection \<open>Client module (src/tools/joke-generator/lib/types.ts)\<close>

text \<open>
  \<open>BaseJoke\<close> without its \<open>type\<close> tag, which is the constructor of \<open>Joke\<close>; the field \<open>id\<close> is
  named \<open>joke_id\<close>.
\<close>

record BaseJoke =
  error :: bool
  category :: JokeCategory
  flags :: JokeFlags
  joke_id :: int
  safe :: bool
  lang :: string

text \<open>
  \<open>SingleJoke\<close> carries the text \<open>joke\<close>; \<open>TwoPartJoke\<close> carries \<open>setup\<close> and \<open>delivery\<close>, in
  that order.
\<close>

datatype Joke = SingleJoke BaseJoke string | TwoPartJoke BaseJoke string string

text \<open>\<open>JokeApiError\<close>; its field \<open>error\<close> has the literal type \<open>true\<close> and is left out.\<close>

record JokeApiError =
  internalError :: bool
  code :: int
  message :: string
  causedBy :: "string list"
  additionalInfo :: string
  timestamp :: int

text \<open>\<open>category?: JokeCategory | JokeCategory[]\<close>\<close>

datatype CategorySelector = OneCategory JokeCategory | CategoryList "JokeCategory list"

text \<open>An optional field is an \<open>option\<close>: \<open>None\<close> is \<open>undefined\<close>.\<close>

record JokeFetchOptions =
  category :: "CategorySelector option"
  lang :: "string option"
  blacklistFlags :: "JokeFlagKey list option"
  type :: "JokeType option"
  contains :: "string option"
  amount :: "int option"
  timeout :: "int option"

subsection \<open>Token bucket module (src/joke-generator/lib/types.ts)\<close>

text \<open>The fields \<open>id\<close> and \<open>setup\<close> are named \<open>joke_id\<close> and \<open>setupText\<close>.\<close>

record JokeResponse =
  error :: bool
  category :: JokeCategory
  type :: JokeType
  joke :: "string option"
  setupText :: "string option"
  delivery :: "string option"
  flags :: JokeFlags
  joke_id :: int
  safe :: bool
  lang :: string

record JokeErrorResponse =
  error :: bool
  internalError :: bool
  code :: int
  message :: string
  causedBy :: "string list"
  additionalInfo :: "string option"
  timestamp :: int

record JokeOptions =
  categories :: "JokeCategory list option"
  blacklistFlags :: "JokeFlagKey list option"
  type :: "JokeType option"
  searchString :: "string option"
  lang :: "string option"
  amount :: "int option"


section \<open>Building request URLs\<close>

subsection \<open>Platform functions used by the builders\<close>

text \<open>\<open>Array.prototype.join\<close> on an array of strings.\<close>

fun join :: "string \<Rightarrow> string list \<Rightarrow> string" where
  "join sep [] = []"
| "join sep [x] = x"
| "join sep (x # y # ys) = x @ sep @ join sep (y # ys)"

text \<open>\<open>Number.prototype.toString\<close> on an integer: its decimal numeral.\<close>

fun string_of_nat :: "nat \<Rightarrow> string" where
  "string_of_nat n =
     (if n < 10 then [''0123456789'' ! n]
      else string_of_nat (n div 10) @ [''0123456789'' ! (n mod 10)])"

declare string_of_nat.simps [simp del]

definition number_toString :: "int \<Rightarrow> string" where
  "number_toString n =
     (if n < 0 then ''-'' @ string_of_nat (nat (- n)) else string_of_nat (nat n))"

text \<open>
  \<open>URLSearchParams.prototype.toString\<close>: the application/x-www-form-urlencoded serializer.
  Strings are byte sequences here. A space becomes \<open>+\<close>, the bytes of \<open>*-._\<close>, digits and ASCII
  letters stay, every other byte becomes \<open>%\<close> and two upper-case hexadecimal digits; name and
  value are joined by \<open>=\<close>, the pairs by \<open>&\<close>.
\<close>

definition urlencoded_keep :: "char \<Rightarrow> bool" where
  "urlencoded_keep c \<longleftrightarrow>
     c \<in> set (''*-._0123456789'' @ ''ABCDEFGHIJKLMNOPQRSTUVWXYZ'' @ ''abcdefghijklmnopqrstuvwxyz'')"

definition urlencode_byte :: "char \<Rightarrow> string" where
  "urlencode_byte c =
     (if c = CHR '' '' then ''+''
      else if urlencoded_keep c then [c]
      else [CHR ''%'', ''0123456789ABCDEF'' ! (of_char c div 16),
                       ''0123456789ABCDEF'' ! (of_char c mod 16)])"

definition urlencode :: "string \<Rightarrow> string" where
  "urlencode s = concat (map urlencode_byte s)"

definition URLSearchParams_toString :: "(string \<times> string) list \<Rightarrow> string" where
  "URLSearchParams_toString params =
     join ''&'' (map (\<lambda>(name, v). urlencode name @ ''='' @ urlencode v) params)"

subsection \<open>\<open>JokeApiClient.buildUrl\<close> (src/tools/joke-generator/lib/client.ts)\<close>

text \<open>
  The local \<open>categories\<close>: an array is joined by commas; a single category is used unless
  its string is empty; otherwise \<open>'Any'\<close>.
\<close>

definition JokeApiClient_categories :: "JokeFetchOptions \<Rightarrow> string" where
  "JokeApiClient_categories options =
     (case JokeFetchOptions.category options of
        Some (CategoryList cs) \<Rightarrow> join '','' (map JokeCategory_str cs)
      | Some (OneCategory c) \<Rightarrow>
          (if JokeCategory_str c \<noteq> [] then JokeCategory_str c else ''Any'')
      | None \<Rightarrow> ''Any'')"

text \<open>
  The local \<open>params\<close> after the five conditional appends, in their order. A string is truthy
  when it is defined and not empty, a number when it is defined and not 0.
\<close>

definition JokeApiClient_params :: "JokeFetchOptions \<Rightarrow> (string \<times> string) list" where
  "JokeApiClient_params options =
     (case JokeFetchOptions.lang options of
        Some l \<Rightarrow> if l \<noteq> [] then [(''lang'', l)] else []
      | None \<Rightarrow> []) @
     (case JokeFetchOptions.blacklistFlags options of
        Some fs \<Rightarrow>
          if length fs > 0 then [(''blacklistFlags'', join '','' (map JokeFlagKey_str fs))] else []
      | None \<Rightarrow> []) @
     (case JokeFetchOptions.type options of
        Some t \<Rightarrow> if JokeType_str t \<noteq> [] then [(''type'', JokeType_str t)] else []
      | None \<Rightarrow> []) @
     (case JokeFetchOptions.contains options of
        Some s \<Rightarrow> if s \<noteq> [] then [(''contains'', s)] else []
      | None \<Rightarrow> []) @
     (case JokeFetchOptions.amount options of
        Some a \<Rightarrow> if a \<noteq> 0 \<and> a > 1 \<and> a \<le> 10 then [(''amount'', number_toString a)] else []
      | None \<Rightarrow> [])"

definition JokeApiClient_buildUrl :: "string \<Rightarrow> JokeFetchOptions \<Rightarrow> string" where
  "JokeApiClient_buildUrl baseUrl options =
     (let categories = JokeApiClient_categories options;
          queryString = URLSearchParams_toString (JokeApiClient_params options)
      in baseUrl @ ''/joke/'' @ categories @
         (if queryString \<noteq> [] then ''?'' @ queryString else []))"

subsection \<open>\<open>JokeGenerator.buildUrl\<close> (src/joke-generator/lib/joke-generator.ts)\<close>

definition JOKE_API_BASE_URL :: string where
  "JOKE_API_BASE_URL = ''https://v2.jokeapi.dev/joke''"

definition DEFAULT_SAFE_CATEGORIES :: "JokeCategory list" where
  "DEFAULT_SAFE_CATEGORIES = [Programming, Misc, Pun]"

text \<open>
  The local \<open>categories\<close>: \<open>options.categories?.join(',') || DEFAULT_SAFE_CATEGORIES.join(',')\<close>;
  the default is taken when the list is absent and when its join is the empty string.
\<close>

definition JokeGenerator_categories :: "JokeOptions \<Rightarrow> string" where
  "JokeGenerator_categories options =
     (case JokeOptions.categories options of
        Some cs \<Rightarrow>
          (if join '','' (map JokeCategory_str cs) \<noteq> []
           then join '','' (map JokeCategory_str cs)
           else join '','' (map JokeCategory_str DEFAULT_SAFE_CATEGORIES))
      | None \<Rightarrow> join '','' (map JokeCategory_str DEFAULT_SAFE_CATEGORIES))"

text \<open>
  The local \<open>params\<close> after the six conditional appends, in their order. An array is truthy
  whenever it is defined, also when it is empty.
\<close>

definition JokeGenerator_params :: "JokeOptions \<Rightarrow> (string \<times> string) list" where
  "JokeGenerator_params options =
     (case JokeOptions.blacklistFlags options of
        Some fs \<Rightarrow>
          if length fs > 0 then [(''blacklistFlags'', join '','' (map JokeFlagKey_str fs))] else []
      | None \<Rightarrow> []) @
     (case JokeOptions.type options of
        Some t \<Rightarrow> if JokeType_str t \<noteq> [] then [(''type'', JokeType_str t)] else []
      | None \<Rightarrow> []) @
     (case JokeOptions.searchString options of
        Some s \<Rightarrow> if s \<noteq> [] then [(''contains'', s)] else []
      | None \<Rightarrow> []) @
     (case JokeOptions.lang options of
        Some l \<Rightarrow> if l \<noteq> [] then [(''lang'', l)] else []
      | None \<Rightarrow> []) @
     (case JokeOptions.amount options of
        Some a \<Rightarrow> if a \<noteq> 0 then [(''amount'', number_toString (max 1 (min 10 a)))] else []
      | None \<Rightarrow> []) @
     (case JokeOptions.blacklistFlags options of
        Some fs \<Rightarrow> []
      | None \<Rightarrow> [(''safe-mode'', ''true'')])"

definition JokeGenerator_buildUrl :: "string \<Rightarrow> JokeOptions \<Rightarrow> string" where
  "JokeGenerator_buildUrl apiBaseUrl options =
     (let categories = JokeGenerator_categories options;
          url = apiBaseUrl @ ''/'' @ categories;
          queryString = URLSearchParams_toString (JokeGenerator_params options)
      in if queryString \<noteq> [] then url @ ''?'' @ queryString else url)"

text \<open>The default argument \<open>{}\<close> of each builder: every option absent.\<close>

definition empty_JokeFetchOptions :: JokeFetchOptions where
  "empty_JokeFetchOptions =
     \<lparr> JokeFetchOptions.category = None, JokeFetchOptions.lang = None,
       JokeFetchOptions.blacklistFlags = None, JokeFetchOptions.type = None,
       JokeFetchOptions.contains = None, JokeFetchOptions.amount = None,
       JokeFetchOptions.timeout = None \<rparr>"

definition empty_JokeOptions :: JokeOptions where
  "empty_JokeOptions =
     \<lparr> JokeOptions.categories = None, JokeOptions.blacklistFlags = None,
       JokeOptions.type = None, JokeOptions.searchString = None,
       JokeOptions.lang = None, JokeOptions.amount = None \<rparr>"


section \<open>Responses, their classification and formatting\<close>

text \<open>
  A value caught by \<open>catch\<close>: an instance of \<open>Error\<close> with its message, or anything else.
\<close>

datatype thrown = ErrorInstance string | NotAnError

text \<open>
  What the code reads of a transport response: \<open>ok\<close>, \<open>status\<close>, and the outcome of
  \<open>response.json()\<close>, which is the decoded payload (\<open>Inr\<close>) or the value it rejects with
  (\<open>Inl\<close>).
\<close>

record 'd Response =
  ok :: bool
  status :: int
  json :: "thrown + 'd"

subsection \<open>\<open>JokeApiClient\<close> (src/tools/joke-generator/lib/client.ts)\<close>

text \<open>
  The decoded payload \<open>data\<close>, by the declared types: an error envelope, one joke, or a batch
  of jokes.
\<close>

datatype ApiData = ErrorData JokeApiError | JokeData Joke | JokesData "Joke list"

text \<open>
  \<open>data.error === true\<close>. The envelope's field has the literal type \<open>true\<close>, a joke carries a
  boolean, a batch has no such field.
\<close>

fun ApiData_error :: "ApiData \<Rightarrow> bool" where
  "ApiData_error (ErrorData e) = True"
| "ApiData_error (JokeData (SingleJoke b t)) = BaseJoke.error b"
| "ApiData_error (JokeData (TwoPartJoke b s d)) = BaseJoke.error b"
| "ApiData_error (JokesData js) = False"

text \<open>
  The errors of the module: \<open>JokeApiClientError message code causedBy\<close> (the last two
  optional), \<open>JokeApiTimeoutError message\<close>, and a value thrown by the platform that the code
  lets through.
\<close>

datatype client_error =
    JokeApiClientError string "int option" "string list option"
  | JokeApiTimeoutError string
  | Thrown thrown

text \<open>
  \<open>parseResponse\<close>. A payload with \<open>error === true\<close> is read as a \<open>JokeApiError\<close>; on a joke
  whose \<open>error\<close> is true the fields \<open>message\<close>, \<open>code\<close> and \<open>causedBy\<close> are undefined.
\<close>

definition parseResponse :: "ApiData Response \<Rightarrow> client_error + ApiData" where
  "parseResponse response =
     (if \<not> ok response
      then Inl (JokeApiClientError
                  (''HTTP error! status: '' @ number_toString (status response))
                  (Some (status response)) None)
      else case json response of
        Inl t \<Rightarrow> Inl (Thrown t)
      | Inr data \<Rightarrow>
          if ApiData_error data
          then (case data of
                  ErrorData errorData \<Rightarrow>
                    Inl (JokeApiClientError
                           (if JokeApiError.message errorData \<noteq> []
                            then JokeApiError.message errorData
                            else ''API returned an error'')
                           (Some (JokeApiError.code errorData))
                           (Some (JokeApiError.causedBy errorData)))
                | _ \<Rightarrow> Inl (JokeApiClientError ''API returned an error'' None None))
          else Inr data)"

fun formatJoke :: "Joke \<Rightarrow> string" where
  "formatJoke (SingleJoke b t) = t"
| "formatJoke (TwoPartJoke b s d) = s @ [CHR 0x0A] @ d"

subsection \<open>\<open>JokeGenerator\<close> (src/joke-generator/lib/joke-generator.ts)\<close>

datatype GeneratorData = ErrorResponseData JokeErrorResponse | JokeResponseData JokeResponse

fun GeneratorData_error :: "GeneratorData \<Rightarrow> bool" where
  "GeneratorData_error (ErrorResponseData e) = JokeErrorResponse.error e"
| "GeneratorData_error (JokeResponseData j) = JokeResponse.error j"

text \<open>
  The errors of the module: \<open>RateLimitError message retryAfter\<close>,
  \<open>JokeAPIError message code causedBy\<close> (the last two optional), and a plain \<open>Error message\<close>.
\<close>

datatype generator_error =
    RateLimitError string int
  | JokeAPIError string "int option" "string list option"
  | Error string

record JokeGenerator =
  rateLimiter :: RateLimiter
  apiBaseUrl :: string

text \<open>The constructor; \<open>now\<close> is read only when the default limiter is created.\<close>

definition new_JokeGenerator :: "RateLimiter option \<Rightarrow> string option \<Rightarrow> int \<Rightarrow> JokeGenerator" where
  "new_JokeGenerator rl url now =
     \<lparr> rateLimiter = (case rl of Some r \<Rightarrow> r | None \<Rightarrow> createDefaultRateLimiter now),
       apiBaseUrl = (case url of
                       Some u \<Rightarrow> if u \<noteq> [] then u else JOKE_API_BASE_URL
                     | None \<Rightarrow> JOKE_API_BASE_URL) \<rparr>"

text \<open>\<open>error instanceof Error ? error.message : 'Unknown error'\<close>\<close>

fun thrown_message :: "thrown \<Rightarrow> string" where
  "thrown_message (ErrorInstance m) = m"
| "thrown_message NotAnError = ''Unknown error''"

text \<open>\<open>Math.ceil(a / b)\<close> for an integer \<open>a\<close> and a positive integer \<open>b\<close>.\<close>

definition Math_ceil_div :: "int \<Rightarrow> int \<Rightarrow> int" where
  "Math_ceil_div a b = - ((- a) div b)"

text \<open>
  The \<open>try\<close> block of \<open>fetchJoke\<close> with its \<open>catch\<close>, applied to what \<open>fetch\<close> gave: a value it
  rejected with (\<open>Inl\<close>) or a response. The \<open>Error\<close> thrown for a status that is not ok and
  every foreign value are wrapped by the \<open>catch\<close>; a \<open>JokeAPIError\<close> passes through it.
\<close>

definition fetchJoke_try :: "thrown + GeneratorData Response \<Rightarrow> generator_error + GeneratorData" where
  "fetchJoke_try fetched =
     (case fetched of
        Inl t \<Rightarrow> Inl (Error (''Failed to fetch joke: '' @ thrown_message t))
      | Inr response \<Rightarrow>
          if \<not> ok response
          then Inl (Error (''Failed to fetch joke: '' @
                           (''HTTP error! status: '' @ number_toString (status response))))
          else case json response of
            Inl t \<Rightarrow> Inl (Error (''Failed to fetch joke: '' @ thrown_message t))
          | Inr data \<Rightarrow>
              if GeneratorData_error data
              then (case data of
                      ErrorResponseData errorData \<Rightarrow>
                        Inl (JokeAPIError
                               (if JokeErrorResponse.message errorData \<noteq> []
                                then JokeErrorResponse.message errorData
                                else ''Unknown API error'')
                               (Some (JokeErrorResponse.code errorData))
                               (Some (JokeErrorResponse.causedBy errorData)))
                    | JokeResponseData j \<Rightarrow> Inl (JokeAPIError ''Unknown API error'' None None))
              else Inr data)"

text \<open>
  \<open>fetchJoke\<close>. \<open>fetch\<close> is the transport, \<open>now\<close> the clock value read by \<open>tryConsume\<close> and
  \<open>now'\<close> the one read by \<open>getTimeUntilRefill\<close>. The result is the outcome, the generator
  left behind, and the URLs that were passed to \<open>fetch\<close> during the call.
\<close>

definition fetchJoke ::
  "(string \<Rightarrow> thrown + GeneratorData Response) \<Rightarrow> int \<Rightarrow> int \<Rightarrow> JokeGenerator \<Rightarrow> JokeOptions \<Rightarrow>
     (generator_error + GeneratorData) \<times> JokeGenerator \<times> string list" where
  "fetchJoke fetch now now' g options =
     (case tryConsume now (rateLimiter g) of
        (granted, rl) \<Rightarrow>
          if \<not> granted
          then (let retryAfter = getTimeUntilRefill now' rl in
                (Inl (RateLimitError
                        (''Rate limit exceeded. Please try again in '' @
                           number_toString (Math_ceil_div retryAfter 1000) @ '' seconds.'')
                        retryAfter),
                 g \<lparr> rateLimiter := rl \<rparr>, []))
          else (let url = JokeGenerator_buildUrl (apiBaseUrl g) options in
                (fetchJoke_try (fetch url), g \<lparr> rateLimiter := rl \<rparr>, [url])))"

text \<open>A template literal prints an undefined value as \<open>undefined\<close>.\<close>

fun template_string :: "string option \<Rightarrow> string" where
  "template_string None = ''undefined''"
| "template_string (Some s) = s"

text \<open>
  The text \<open>getRandomJoke\<close> returns for a fetched payload. A payload that is no joke has no
  \<open>type\<close>, \<open>setup\<close> or \<open>delivery\<close>.
\<close>

fun getRandomJoke_text :: "GeneratorData \<Rightarrow> string" where
  "getRandomJoke_text (JokeResponseData j) =
     (if JokeResponse.type j = single
      then (case JokeResponse.joke j of Some t \<Rightarrow> if t \<noteq> [] then t else [] | None \<Rightarrow> [])
      else template_string (setupText j) @ [CHR 0x0A] @ template_string (delivery j))"
| "getRandomJoke_text (ErrorResponseData e) =
     template_string None @ [CHR 0x0A] @ template_string None"

definition getRandomJoke ::
  "(string \<Rightarrow> thrown + GeneratorData Response) \<Rightarrow> int \<Rightarrow> int \<Rightarrow> JokeGenerator \<Rightarrow> JokeOptions \<Rightarrow>
     (generator_error + string) \<times> JokeGenerator \<times> string list" where
  "getRandomJoke fetch now now' g options =
     (case fetchJoke fetch now now' g options of
        (Inl e, g', requests) \<Rightarrow> (Inl e, g', requests)
      | (Inr j, g', requests) \<Rightarrow> (Inr (getRandomJoke_text j), g', requests))"


subsection \<open>Payloads of the test suites\<close>

text \<open>The mock payloads the tests of both modules respond with.\<close>

definition mockFlags :: JokeFlags where
  "mockFlags = \<lparr> nsfw = False, religious = False, political = False, racist = False,
                  sexist = False, explicit = False \<rparr>"

definition mockBaseJoke :: BaseJoke where
  "mockBaseJoke =
     \<lparr> BaseJoke.error = False, BaseJoke.category = Programming, BaseJoke.flags = mockFlags,
       BaseJoke.joke_id = 42, BaseJoke.safe = True, BaseJoke.lang = ''en'' \<rparr>"


definition mockJokeResponse :: JokeResponse where
  "mockJokeResponse =
     \<lparr> JokeResponse.error = False, JokeResponse.category = Programming,
       JokeResponse.type = single, JokeResponse.joke = Some ''Test joke'',
       JokeResponse.setupText = None, JokeResponse.delivery = None,
       JokeResponse.flags = mockFlags, JokeResponse.joke_id = 1, JokeResponse.safe = True,
       JokeResponse.lang = ''en'' \<rparr>"



section \<open>Properties of the token bucket rate limiter\<close>

subsection \<open>Refill and consumption inside and outside a window\<close>

lemma refill_within:
  "now - lastRefill (state rl) < windowMs (config rl) \<Longrightarrow> refill now rl = rl"
  by (simp add: refill_def)

lemma tryConsume_within:
  "now - lastRefill (state rl) < windowMs (config rl) \<Longrightarrow>
     tryConsume now rl =
       (if 0 < tokens (state rl)
        then (True, rl \<lparr> state := (state rl) \<lparr> tokens := tokens (state rl) - 1 \<rparr> \<rparr>)
        else (False, rl))"
  by (simp add: tryConsume_def refill_within)

lemma consumeAt_within:
  assumes "\<forall>t \<in> set ts. t - a < windowMs cfg" and "0 \<le> n"
  shows "consumeAt ts \<lparr> state = \<lparr> tokens = n, lastRefill = a \<rparr>, config = cfg \<rparr> =
           \<lparr> state = \<lparr> tokens = max 0 (n - int (length ts)), lastRefill = a \<rparr>, config = cfg \<rparr>"
  using assms
proof (induction ts arbitrary: n)
  case Nil
  then show ?case by simp
next
  case (Cons t ts)
  let ?rl = "\<lparr> state = \<lparr> tokens = n, lastRefill = a \<rparr>, config = cfg \<rparr>"
  from Cons.prems have w: "t - lastRefill (state ?rl) < windowMs (config ?rl)" by simp
  from Cons.prems have rest: "\<forall>t \<in> set ts. t - a < windowMs cfg" by simp
  show ?case
  proof (cases "0 < n")
    case True
    then have "0 \<le> n - 1" by simp
    from Cons.IH [OF rest this] True show ?thesis
      unfolding consumeAt.simps tryConsume_within [OF w] by (simp add: max_def)
  next
    case False
    with Cons.prems have "n = 0" by simp
    with Cons.IH [OF rest, of 0] show ?thesis
      unfolding consumeAt.simps tryConsume_within [OF w] by simp
  qed
qed

text \<open>
  C1 (as amended). For every capacity \<open>N \<ge> 1\<close> and every window duration \<open>W > 0\<close>, on a freshly
  constructed limiter, as long as the calls read clock values inside the window that
  construction opened (in particular with no time elapsing), the call after \<open>k\<close> earlier
  calls is granted when \<open>k < N\<close>, leaving \<open>N - k - 1\<close> tokens and the window anchor untouched,
  and is denied when \<open>k \<ge> N\<close>, leaving the limiter exactly as it was: the first \<open>N\<close> calls are
  granted, each taking one token, and every later call is denied without changing the state.
\<close>

theorem consume_exactly_capacity:
  assumes "1 \<le> maxRequests cfg" and "0 < windowMs cfg"
    and "\<forall>t \<in> set ts. t - t0 < windowMs cfg" and "t' - t0 < windowMs cfg"
  shows "(int (length ts) < maxRequests cfg \<longrightarrow>
            tryConsume t' (consumeAt ts (new_RateLimiter cfg t0)) =
              (True, \<lparr> state = \<lparr> tokens = maxRequests cfg - int (length ts) - 1,
                                lastRefill = t0 \<rparr>,
                       config = cfg \<rparr>)) \<and>
         (maxRequests cfg \<le> int (length ts) \<longrightarrow>
            tryConsume t' (consumeAt ts (new_RateLimiter cfg t0)) =
              (False, consumeAt ts (new_RateLimiter cfg t0)))"
proof -
  let ?rl = "\<lparr> state = \<lparr> tokens = max 0 (maxRequests cfg - int (length ts)), lastRefill = t0 \<rparr>,
              config = cfg \<rparr>"
  from assms have c: "consumeAt ts (new_RateLimiter cfg t0) = ?rl"
    by (simp add: new_RateLimiter_def consumeAt_within)
  from assms have w: "t' - lastRefill (state ?rl) < windowMs (config ?rl)" by simp
  show ?thesis
    unfolding c tryConsume_within [OF w] by (simp add: max_def)
qed

theorem consume_exactly_capacity_witness:
  "tryConsume 0 (consumeAt [0] (new_RateLimiter \<lparr> maxRequests = 2, windowMs = 1000 \<rparr> 0)) =
     (True, \<lparr> state = \<lparr> tokens = 0, lastRefill = 0 \<rparr>,
              config = \<lparr> maxRequests = 2, windowMs = 1000 \<rparr> \<rparr>) \<and>
   tryConsume 0 (consumeAt [0, 0] (new_RateLimiter \<lparr> maxRequests = 2, windowMs = 1000 \<rparr> 0)) =
     (False, consumeAt [0, 0] (new_RateLimiter \<lparr> maxRequests = 2, windowMs = 1000 \<rparr> 0)) \<and>
   tryConsume 999 (consumeAt [0, 0, 400] (new_RateLimiter \<lparr> maxRequests = 2, windowMs = 1000 \<rparr> 0)) =
     (False, consumeAt [0, 0, 400] (new_RateLimiter \<lparr> maxRequests = 2, windowMs = 1000 \<rparr> 0))"
  using consume_exactly_capacity [of "\<lparr> maxRequests = 2, windowMs = 1000 \<rparr>" "[0]" 0 0]
        consume_exactly_capacity [of "\<lparr> maxRequests = 2, windowMs = 1000 \<rparr>" "[0, 0]" 0 0]
        consume_exactly_capacity [of "\<lparr> maxRequests = 2, windowMs = 1000 \<rparr>" "[0, 0, 400]" 0 999]
  by simp

text \<open>
  C1 as stated ranges over every window duration. With \<open>windowMs = 0\<close> the test
  \<open>timePassed \<ge> windowMs\<close> of \<open>refill\<close> holds with no time elapsed, so each call refills
  first: with capacity 1 the second call at the construction time is granted again.
\<close>

theorem zero_window_counterexample:
  "tryConsume 0 (consumeAt [0] (new_RateLimiter \<lparr> maxRequests = 1, windowMs = 0 \<rparr> 0)) =
     (True, \<lparr> state = \<lparr> tokens = 0, lastRefill = 0 \<rparr>,
              config = \<lparr> maxRequests = 1, windowMs = 0 \<rparr> \<rparr>)"
  by (simp add: tryConsume_def refill_def new_RateLimiter_def)

text \<open>
  C2. In every state, once \<open>now - lastRefill \<ge> windowMs\<close> the refill that opens the next
  admission check sets the tokens to the full capacity and the window anchor to \<open>now\<close>, so
  with a capacity of at least 1 \<open>tryConsume\<close> is granted whatever the tokens were before;
  while the window has only partly elapsed the refill changes nothing.
\<close>

theorem window_elapsed_full_reset:
  "(windowMs (config rl) \<le> now - lastRefill (state rl) \<longrightarrow>
      refill now rl = rl \<lparr> state := \<lparr> tokens = maxRequests (config rl), lastRefill = now \<rparr> \<rparr> \<and>
      (1 \<le> maxRequests (config rl) \<longrightarrow>
         tryConsume now rl =
           (True, rl \<lparr> state := \<lparr> tokens = maxRequests (config rl) - 1, lastRefill = now \<rparr> \<rparr>))) \<and>
   (now - lastRefill (state rl) < windowMs (config rl) \<longrightarrow> refill now rl = rl)"
  by (simp add: tryConsume_def refill_def Let_def)

theorem window_elapsed_full_reset_witness:
  "windowMs (config \<lparr> state = \<lparr> tokens = 0, lastRefill = 0 \<rparr>,
                     config = \<lparr> maxRequests = 3, windowMs = 1000 \<rparr> \<rparr>) \<le> 1000 - 0 \<and>
   tryConsume 1000 \<lparr> state = \<lparr> tokens = 0, lastRefill = 0 \<rparr>,
                    config = \<lparr> maxRequests = 3, windowMs = 1000 \<rparr> \<rparr> =
     (True, \<lparr> state = \<lparr> tokens = 2, lastRefill = 1000 \<rparr>,
              config = \<lparr> maxRequests = 3, windowMs = 1000 \<rparr> \<rparr>) \<and>
   refill 999 \<lparr> state = \<lparr> tokens = 0, lastRefill = 0 \<rparr>,
                config = \<lparr> maxRequests = 3, windowMs = 1000 \<rparr> \<rparr> =
     \<lparr> state = \<lparr> tokens = 0, lastRefill = 0 \<rparr>,
       config = \<lparr> maxRequests = 3, windowMs = 1000 \<rparr> \<rparr>"
  using window_elapsed_full_reset
          [of "\<lparr> state = \<lparr> tokens = 0, lastRefill = 0 \<rparr>,
                 config = \<lparr> maxRequests = 3, windowMs = 1000 \<rparr> \<rparr>" 1000]
        window_elapsed_full_reset
          [of "\<lparr> state = \<lparr> tokens = 0, lastRefill = 0 \<rparr>,
                 config = \<lparr> maxRequests = 3, windowMs = 1000 \<rparr> \<rparr>" 999]
  by simp

subsection \<open>The budget invariant along a run of calls\<close>










text \<open>
  C8. \<open>getTimeUntilRefill\<close> returns \<open>max 0 (windowMs - (now - lastRefill))\<close>; on an unchanged
  limiter (no refill in between) a later clock value never gives a larger result; and the
  result is exactly 0 once the whole window duration has elapsed past the anchor.
\<close>

theorem time_until_refill:
  "getTimeUntilRefill now rl = max 0 (windowMs (config rl) - (now - lastRefill (state rl))) \<and>
   (now \<le> now' \<longrightarrow> getTimeUntilRefill now' rl \<le> getTimeUntilRefill now rl) \<and>
   (windowMs (config rl) \<le> now - lastRefill (state rl) \<longrightarrow> getTimeUntilRefill now rl = 0)"
  by (auto simp: getTimeUntilRefill_def Let_def)

theorem time_until_refill_witness:
  "(300::int) \<le> 700 \<and>
   getTimeUntilRefill 700 \<lparr> state = \<lparr> tokens = 1, lastRefill = 100 \<rparr>,
                             config = \<lparr> maxRequests = 3, windowMs = 1000 \<rparr> \<rparr>
     \<le> getTimeUntilRefill 300 \<lparr> state = \<lparr> tokens = 1, lastRefill = 100 \<rparr>,
                                  config = \<lparr> maxRequests = 3, windowMs = 1000 \<rparr> \<rparr> \<and>
   getTimeUntilRefill 1100 \<lparr> state = \<lparr> tokens = 1, lastRefill = 100 \<rparr>,
                              config = \<lparr> maxRequests = 3, windowMs = 1000 \<rparr> \<rparr> = 0"
  using time_until_refill
          [of 300 "\<lparr> state = \<lparr> tokens = 1, lastRefill = 100 \<rparr>,
                      config = \<lparr> maxRequests = 3, windowMs = 1000 \<rparr> \<rparr>" 700]
        time_until_refill
          [of 1100 "\<lparr> state = \<lparr> tokens = 1, lastRefill = 100 \<rparr>,
                       config = \<lparr> maxRequests = 3, windowMs = 1000 \<rparr> \<rparr>" 1100]
  by simp

section \<open>Properties of the URL builders\<close>

subsection \<open>Strings that are never empty\<close>

lemma string_of_nat_nonempty: "string_of_nat n \<noteq> []"
  by (subst string_of_nat.simps) simp

lemma number_toString_nonempty: "number_toString a \<noteq> []"
  by (simp add: number_toString_def string_of_nat_nonempty)

lemma JokeCategory_str_nonempty: "JokeCategory_str c \<noteq> []"
  by (cases c) simp_all

lemma JokeType_str_nonempty: "JokeType_str t \<noteq> []"
  by (cases t) simp_all

lemma JokeFlagKey_str_nonempty: "JokeFlagKey_str f \<noteq> []"
  by (cases f) simp_all

lemma join_nonempty: "xs \<noteq> [] \<Longrightarrow> hd xs \<noteq> [] \<Longrightarrow> join sep xs \<noteq> []"
  by (induction sep xs rule: join.induct) simp_all

lemma join_snoc: "join sep (xs @ [x]) = (if xs = [] then x else join sep xs @ sep @ x)"
  by (induction sep xs rule: join.induct) simp_all

lemma join_flags_nonempty: "fs \<noteq> [] \<Longrightarrow> join sep (map JokeFlagKey_str fs) \<noteq> []"
  by (rule join_nonempty) (simp_all add: hd_map JokeFlagKey_str_nonempty)

lemma join_categories_nonempty: "cs \<noteq> [] \<Longrightarrow> join sep (map JokeCategory_str cs) \<noteq> []"
  by (rule join_nonempty) (simp_all add: hd_map JokeCategory_str_nonempty)

subsection \<open>The parameters of a request\<close>

lemma JokeApiClient_params_values:
  "(k, v) \<in> set (JokeApiClient_params options) \<Longrightarrow> v \<noteq> []"
  by (auto simp: JokeApiClient_params_def number_toString_nonempty join_flags_nonempty
        JokeType_str_nonempty eq_commute [of "[]"] split: option.splits if_splits)

lemma JokeGenerator_params_values:
  "(k, v) \<in> set (JokeGenerator_params options) \<Longrightarrow> v \<noteq> []"
  by (auto simp: JokeGenerator_params_def number_toString_nonempty join_flags_nonempty
        JokeType_str_nonempty eq_commute [of "[]"] split: option.splits if_splits)

lemma JokeApiClient_amount:
  "filter (\<lambda>p. fst p = ''amount'') (JokeApiClient_params options) =
     (case JokeFetchOptions.amount options of
        Some a \<Rightarrow> if 1 < a \<and> a \<le> 10 then [(''amount'', number_toString a)] else []
      | None \<Rightarrow> [])"
  by (simp add: JokeApiClient_params_def split: option.splits)

lemma JokeGenerator_amount:
  "filter (\<lambda>p. fst p = ''amount'') (JokeGenerator_params options) =
     (case JokeOptions.amount options of
        Some a \<Rightarrow> if a \<noteq> 0 then [(''amount'', number_toString (max 1 (min 10 a)))] else []
      | None \<Rightarrow> [])"
  by (simp add: JokeGenerator_params_def split: option.splits)

lemma JokeGenerator_safe_mode:
  "filter (\<lambda>p. fst p = ''safe-mode'') (JokeGenerator_params options) =
     (case JokeOptions.blacklistFlags options of
        None \<Rightarrow> [(''safe-mode'', ''true'')]
      | Some fs \<Rightarrow> [])"
  by (simp add: JokeGenerator_params_def split: option.splits)

lemma urlencode_safe_mode: "urlencode ''safe-mode'' = ''safe-mode''" "urlencode ''true'' = ''true''"
  by (simp_all add: urlencode_def urlencode_byte_def urlencoded_keep_def)

lemma JokeGenerator_url_safe_mode:
  assumes "JokeOptions.blacklistFlags options = None"
  shows "\<exists>u. JokeGenerator_buildUrl gbase options = u @ ''safe-mode=true''"
proof -
  obtain ps where ps: "JokeGenerator_params options = ps @ [(''safe-mode'', ''true'')]"
    using assms by (simp add: JokeGenerator_params_def)
  let ?enc = "\<lambda>(name, v). urlencode name @ ''='' @ urlencode v"
  have q: "URLSearchParams_toString (JokeGenerator_params options) =
             (if ps = [] then [] else join ''&'' (map ?enc ps) @ ''&'') @ ''safe-mode=true''"
    unfolding ps URLSearchParams_toString_def
    by (simp add: join_snoc urlencode_safe_mode)
  then have "URLSearchParams_toString (JokeGenerator_params options) \<noteq> []" by simp
  with q show ?thesis
    unfolding JokeGenerator_buildUrl_def Let_def
    by (metis append_assoc)
qed

lemma JokeApiClient_url_shape:
  "\<exists>q. JokeApiClient_buildUrl baseUrl options =
          baseUrl @ ''/joke/'' @ JokeApiClient_categories options @ q \<and>
        (q = [] \<or> hd q = CHR ''?'')"
  by (simp add: JokeApiClient_buildUrl_def Let_def)

lemma JokeGenerator_url_shape:
  "\<exists>q. JokeGenerator_buildUrl gbase goptions =
          gbase @ ''/'' @ JokeGenerator_categories goptions @ q \<and>
        (q = [] \<or> hd q = CHR ''?'')"
  by (simp add: JokeGenerator_buildUrl_def Let_def)

lemma JokeApiClient_categories_cases:
  "(JokeFetchOptions.category options = None \<longrightarrow> JokeApiClient_categories options = ''Any'') \<and>
   (\<forall>c. JokeFetchOptions.category options = Some (OneCategory c) \<longrightarrow>
      JokeApiClient_categories options = JokeCategory_str c) \<and>
   (\<forall>cs. JokeFetchOptions.category options = Some (CategoryList cs) \<longrightarrow>
      JokeApiClient_categories options = join '','' (map JokeCategory_str cs))"
  by (simp add: JokeApiClient_categories_def JokeCategory_str_nonempty)

lemma JokeGenerator_categories_cases:
  "(JokeOptions.categories goptions = None \<or> JokeOptions.categories goptions = Some [] \<longrightarrow>
      JokeGenerator_categories goptions = ''Programming,Misc,Pun'') \<and>
   (\<forall>cs. JokeOptions.categories goptions = Some cs \<and> cs \<noteq> [] \<longrightarrow>
      JokeGenerator_categories goptions = join '','' (map JokeCategory_str cs))"
  by (auto simp: JokeGenerator_categories_def DEFAULT_SAFE_CATEGORIES_def join_categories_nonempty)

lemma JokeApiClient_absent:
  "(JokeFetchOptions.lang options = None \<longrightarrow> ''lang'' \<notin> fst ` set (JokeApiClient_params options)) \<and>
   (JokeFetchOptions.blacklistFlags options = None \<longrightarrow>
      ''blacklistFlags'' \<notin> fst ` set (JokeApiClient_params options)) \<and>
   (JokeFetchOptions.type options = None \<longrightarrow> ''type'' \<notin> fst ` set (JokeApiClient_params options)) \<and>
   (JokeFetchOptions.contains options = None \<longrightarrow>
      ''contains'' \<notin> fst ` set (JokeApiClient_params options)) \<and>
   (JokeFetchOptions.amount options = None \<longrightarrow> ''amount'' \<notin> fst ` set (JokeApiClient_params options))"
  by (auto simp: JokeApiClient_params_def split: option.splits if_splits)

lemma JokeGenerator_absent:
  "(JokeOptions.blacklistFlags goptions = None \<longrightarrow>
      ''blacklistFlags'' \<notin> fst ` set (JokeGenerator_params goptions)) \<and>
   (JokeOptions.type goptions = None \<longrightarrow> ''type'' \<notin> fst ` set (JokeGenerator_params goptions)) \<and>
   (JokeOptions.searchString goptions = None \<longrightarrow>
      ''contains'' \<notin> fst ` set (JokeGenerator_params goptions)) \<and>
   (JokeOptions.lang goptions = None \<longrightarrow> ''lang'' \<notin> fst ` set (JokeGenerator_params goptions)) \<and>
   (JokeOptions.amount goptions = None \<longrightarrow> ''amount'' \<notin> fst ` set (JokeGenerator_params goptions))"
  by (auto simp: JokeGenerator_params_def split: option.splits if_splits)

lemma params_values_nonempty:
  "\<forall>p \<in> set (JokeApiClient_params options) \<union> set (JokeGenerator_params goptions). snd p \<noteq> []"
  using JokeApiClient_params_values JokeGenerator_params_values by fastforce

lemmas url_eval =
  JokeApiClient_buildUrl_def JokeApiClient_categories_def JokeApiClient_params_def
  JokeGenerator_buildUrl_def JokeGenerator_categories_def JokeGenerator_params_def
  empty_JokeFetchOptions_def empty_JokeOptions_def JOKE_API_BASE_URL_def
  DEFAULT_SAFE_CATEGORIES_def URLSearchParams_toString_def urlencode_def urlencode_byte_def
  urlencoded_keep_def number_toString_def string_of_nat.simps

lemma JokeApiClient_buildUrl_examples:
  "JokeApiClient_buildUrl ''https://v2.jokeapi.dev'' empty_JokeFetchOptions =
     ''https://v2.jokeapi.dev/joke/Any''"
  "JokeApiClient_buildUrl ''https://v2.jokeapi.dev''
     (empty_JokeFetchOptions \<lparr> JokeFetchOptions.amount := Some 1 \<rparr>) =
     ''https://v2.jokeapi.dev/joke/Any''"
  "JokeApiClient_buildUrl ''https://v2.jokeapi.dev''
     (empty_JokeFetchOptions \<lparr> JokeFetchOptions.amount := Some 5 \<rparr>) =
     ''https://v2.jokeapi.dev/joke/Any?amount=5''"
  "JokeApiClient_buildUrl ''https://v2.jokeapi.dev''
     (empty_JokeFetchOptions \<lparr> JokeFetchOptions.category := Some (CategoryList [Programming, Pun]),
                               JokeFetchOptions.blacklistFlags := Some [key_nsfw, key_explicit] \<rparr>) =
     ''https://v2.jokeapi.dev/joke/Programming,Pun?blacklistFlags=nsfw%2Cexplicit''"
  by (simp_all add: url_eval)

text \<open>
  C5 (as amended). \<open>JokeApiClient.buildUrl\<close> validates the count: it emits the \<open>amount\<close>
  parameter exactly when \<open>1 < amount \<le> 10\<close>, with the count as its value, so \<open>amount = 1\<close>
  emits none and \<open>amount = 5\<close> emits \<open>amount=5\<close>. \<open>JokeGenerator.buildUrl\<close> clamps the count:
  it emits the parameter for every supplied count other than 0, with the value
  \<open>max 1 (min 10 amount)\<close>, also when that is 1. In both, an emitted count lies in \<open>[1, 10]\<close>.
\<close>

theorem amount_parameter:
  "filter (\<lambda>p. fst p = ''amount'') (JokeApiClient_params options) =
     (case JokeFetchOptions.amount options of
        Some a \<Rightarrow> if 1 < a \<and> a \<le> 10 then [(''amount'', number_toString a)] else []
      | None \<Rightarrow> []) \<and>
   filter (\<lambda>p. fst p = ''amount'') (JokeGenerator_params goptions) =
     (case JokeOptions.amount goptions of
        Some a \<Rightarrow> if a \<noteq> 0 then [(''amount'', number_toString (max 1 (min 10 a)))] else []
      | None \<Rightarrow> []) \<and>
   (\<forall>p \<in> set (JokeApiClient_params options) \<union> set (JokeGenerator_params goptions).
      fst p = ''amount'' \<longrightarrow> (\<exists>n. 1 \<le> n \<and> n \<le> 10 \<and> snd p = number_toString n))"
proof (intro conjI ballI impI)
  show "filter (\<lambda>p. fst p = ''amount'') (JokeApiClient_params options) =
     (case JokeFetchOptions.amount options of
        Some a \<Rightarrow> if 1 < a \<and> a \<le> 10 then [(''amount'', number_toString a)] else []
      | None \<Rightarrow> [])"
    by (rule JokeApiClient_amount)
  show "filter (\<lambda>p. fst p = ''amount'') (JokeGenerator_params goptions) =
     (case JokeOptions.amount goptions of
        Some a \<Rightarrow> if a \<noteq> 0 then [(''amount'', number_toString (max 1 (min 10 a)))] else []
      | None \<Rightarrow> [])"
    by (rule JokeGenerator_amount)
next
  fix p
  assume m: "p \<in> set (JokeApiClient_params options) \<union> set (JokeGenerator_params goptions)"
    and k: "fst p = ''amount''"
  then have "p \<in> set (filter (\<lambda>p. fst p = ''amount'') (JokeApiClient_params options)) \<or>
             p \<in> set (filter (\<lambda>p. fst p = ''amount'') (JokeGenerator_params goptions))"
    by auto
  then show "\<exists>n. 1 \<le> n \<and> n \<le> 10 \<and> snd p = number_toString n"
  proof
    assume "p \<in> set (filter (\<lambda>p. fst p = ''amount'') (JokeApiClient_params options))"
    then obtain a where "1 < a" "a \<le> 10" "snd p = number_toString a"
      unfolding JokeApiClient_amount by (auto split: option.splits if_splits)
    then show ?thesis by (intro exI [of _ a]) simp
  next
    assume "p \<in> set (filter (\<lambda>p. fst p = ''amount'') (JokeGenerator_params goptions))"
    then obtain a where "snd p = number_toString (max 1 (min 10 a))"
      unfolding JokeGenerator_amount by (auto split: option.splits if_splits)
    then show ?thesis by (intro exI [of _ "max 1 (min 10 a)"]) simp
  qed
qed

theorem amount_parameter_witness:
  "filter (\<lambda>p. fst p = ''amount'')
     (JokeApiClient_params (empty_JokeFetchOptions \<lparr> JokeFetchOptions.amount := Some 1 \<rparr>)) = [] \<and>
   filter (\<lambda>p. fst p = ''amount'')
     (JokeApiClient_params (empty_JokeFetchOptions \<lparr> JokeFetchOptions.amount := Some 5 \<rparr>))
     = [(''amount'', ''5'')] \<and>
   filter (\<lambda>p. fst p = ''amount'')
     (JokeGenerator_params (empty_JokeOptions \<lparr> JokeOptions.amount := Some 15 \<rparr>))
     = [(''amount'', ''10'')] \<and>
   (\<exists>n. 1 \<le> n \<and> n \<le> 10 \<and> ''5'' = number_toString n)"
proof -
  let ?o1 = "empty_JokeFetchOptions \<lparr> JokeFetchOptions.amount := Some 1 \<rparr>"
  let ?o5 = "empty_JokeFetchOptions \<lparr> JokeFetchOptions.amount := Some 5 \<rparr>"
  let ?g = "empty_JokeOptions \<lparr> JokeOptions.amount := Some 15 \<rparr>"
  have m: "(''amount'', ''5'') \<in> set (JokeApiClient_params ?o5) \<union> set (JokeGenerator_params ?g)"
    by (simp add: url_eval)
  from amount_parameter [of ?o1 ?g]
  have 1: "filter (\<lambda>p. fst p = ''amount'') (JokeApiClient_params ?o1) = []"
    and 2: "filter (\<lambda>p. fst p = ''amount'') (JokeGenerator_params ?g) = [(''amount'', ''10'')]"
    by (simp_all add: empty_JokeFetchOptions_def empty_JokeOptions_def number_toString_def
          string_of_nat.simps)
  from amount_parameter [of ?o5 ?g]
  have 3: "filter (\<lambda>p. fst p = ''amount'') (JokeApiClient_params ?o5) = [(''amount'', ''5'')]"
    by (simp add: empty_JokeFetchOptions_def number_toString_def string_of_nat.simps)
  have 4: "\<exists>n. 1 \<le> n \<and> n \<le> 10 \<and> ''5'' = number_toString n"
    using amount_parameter [of ?o5 ?g, THEN conjunct2, THEN conjunct2, THEN bspec, OF m] by simp
  from 1 2 3 4 show ?thesis by simp
qed

text \<open>
  C5 as stated fails on \<open>JokeGenerator.buildUrl\<close>: for \<open>amount = 1\<close> it emits \<open>amount=1\<close>.
\<close>

theorem generator_amount_one_counterexample:
  "JokeGenerator_params (empty_JokeOptions \<lparr> JokeOptions.amount := Some 1 \<rparr>) =
     [(''amount'', ''1''), (''safe-mode'', ''true'')] \<and>
   JokeGenerator_buildUrl JOKE_API_BASE_URL (empty_JokeOptions \<lparr> JokeOptions.amount := Some 1 \<rparr>) =
     ''https://v2.jokeapi.dev/joke/Programming,Misc,Pun?amount=1&safe-mode=true''"
  by (simp add: url_eval)

text \<open>
  C6 (as amended). Each built URL is the base, the category path segment, and then nothing
  or a query that starts with \<open>?\<close>. In \<open>JokeApiClient.buildUrl\<close> the segment is \<open>Any\<close> when no
  category is supplied, the category when one is supplied, and the comma-separated list in
  the caller's order when a list is supplied. In \<open>JokeGenerator.buildUrl\<close> the segment is the
  default list \<open>Programming,Misc,Pun\<close> when no list or an empty list is supplied, and the
  comma-separated list in the caller's order otherwise. In both, no emitted parameter has an
  empty value, and the parameter of an absent option is not emitted.
\<close>

theorem category_segment_and_parameters:
  "((\<exists>q. JokeApiClient_buildUrl baseUrl options =
           baseUrl @ ''/joke/'' @ JokeApiClient_categories options @ q \<and>
         (q = [] \<or> hd q = CHR ''?'')) \<and>
    (\<exists>q. JokeGenerator_buildUrl gbase goptions =
           gbase @ ''/'' @ JokeGenerator_categories goptions @ q \<and>
         (q = [] \<or> hd q = CHR ''?''))) \<and>
   ((JokeFetchOptions.category options = None \<longrightarrow> JokeApiClient_categories options = ''Any'') \<and>
    (\<forall>c. JokeFetchOptions.category options = Some (OneCategory c) \<longrightarrow>
       JokeApiClient_categories options = JokeCategory_str c) \<and>
    (\<forall>cs. JokeFetchOptions.category options = Some (CategoryList cs) \<longrightarrow>
       JokeApiClient_categories options = join '','' (map JokeCategory_str cs))) \<and>
   ((JokeOptions.categories goptions = None \<or> JokeOptions.categories goptions = Some [] \<longrightarrow>
       JokeGenerator_categories goptions = ''Programming,Misc,Pun'') \<and>
    (\<forall>cs. JokeOptions.categories goptions = Some cs \<and> cs \<noteq> [] \<longrightarrow>
       JokeGenerator_categories goptions = join '','' (map JokeCategory_str cs))) \<and>
   (\<forall>p \<in> set (JokeApiClient_params options) \<union> set (JokeGenerator_params goptions). snd p \<noteq> []) \<and>
   ((JokeFetchOptions.lang options = None \<longrightarrow> ''lang'' \<notin> fst ` set (JokeApiClient_params options)) \<and>
    (JokeFetchOptions.blacklistFlags options = None \<longrightarrow>
       ''blacklistFlags'' \<notin> fst ` set (JokeApiClient_params options)) \<and>
    (JokeFetchOptions.type options = None \<longrightarrow> ''type'' \<notin> fst ` set (JokeApiClient_params options)) \<and>
    (JokeFetchOptions.contains options = None \<longrightarrow>
       ''contains'' \<notin> fst ` set (JokeApiClient_params options)) \<and>
    (JokeFetchOptions.amount options = None \<longrightarrow> ''amount'' \<notin> fst ` set (JokeApiClient_params options))) \<and>
   ((JokeOptions.blacklistFlags goptions = None \<longrightarrow>
       ''blacklistFlags'' \<notin> fst ` set (JokeGenerator_params goptions)) \<and>
    (JokeOptions.type goptions = None \<longrightarrow> ''type'' \<notin> fst ` set (JokeGenerator_params goptions)) \<and>
    (JokeOptions.searchString goptions = None \<longrightarrow>
       ''contains'' \<notin> fst ` set (JokeGenerator_params goptions)) \<and>
    (JokeOptions.lang goptions = None \<longrightarrow> ''lang'' \<notin> fst ` set (JokeGenerator_params goptions)) \<and>
    (JokeOptions.amount goptions = None \<longrightarrow> ''amount'' \<notin> fst ` set (JokeGenerator_params goptions)))"
  by (intro conjI JokeApiClient_url_shape JokeGenerator_url_shape JokeApiClient_categories_cases
        JokeGenerator_categories_cases params_values_nonempty JokeApiClient_absent
        JokeGenerator_absent)

theorem category_segment_and_parameters_witness:
  "JokeApiClient_categories empty_JokeFetchOptions = ''Any'' \<and>
   JokeApiClient_categories
     (empty_JokeFetchOptions \<lparr> JokeFetchOptions.category := Some (OneCategory Dark) \<rparr>) = ''Dark'' \<and>
   JokeApiClient_categories
     (empty_JokeFetchOptions \<lparr> JokeFetchOptions.category := Some (CategoryList [Programming, Pun]) \<rparr>)
     = ''Programming,Pun'' \<and>
   JokeGenerator_categories empty_JokeOptions = ''Programming,Misc,Pun'' \<and>
   JokeGenerator_categories (empty_JokeOptions \<lparr> JokeOptions.categories := Some [Pun, Dark] \<rparr>)
     = ''Pun,Dark'' \<and>
   ''lang'' \<notin> fst ` set (JokeApiClient_params empty_JokeFetchOptions) \<and>
   ''blacklistFlags'' \<notin> fst ` set (JokeApiClient_params empty_JokeFetchOptions) \<and>
   ''type'' \<notin> fst ` set (JokeApiClient_params empty_JokeFetchOptions) \<and>
   ''contains'' \<notin> fst ` set (JokeApiClient_params empty_JokeFetchOptions) \<and>
   ''amount'' \<notin> fst ` set (JokeApiClient_params empty_JokeFetchOptions) \<and>
   ''blacklistFlags'' \<notin> fst ` set (JokeGenerator_params empty_JokeOptions) \<and>
   ''type'' \<notin> fst ` set (JokeGenerator_params empty_JokeOptions) \<and>
   ''contains'' \<notin> fst ` set (JokeGenerator_params empty_JokeOptions) \<and>
   ''lang'' \<notin> fst ` set (JokeGenerator_params empty_JokeOptions) \<and>
   ''amount'' \<notin> fst ` set (JokeGenerator_params empty_JokeOptions) \<and>
   snd (''safe-mode'', ''true'') \<noteq> []"
proof -
  let ?d = "empty_JokeFetchOptions \<lparr> JokeFetchOptions.category := Some (OneCategory Dark) \<rparr>"
  let ?o = "empty_JokeFetchOptions \<lparr> JokeFetchOptions.category := Some (CategoryList [Programming, Pun]) \<rparr>"
  let ?g = "empty_JokeOptions \<lparr> JokeOptions.categories := Some [Pun, Dark] \<rparr>"
  have none: "JokeFetchOptions.category empty_JokeFetchOptions = None"
      "JokeFetchOptions.lang empty_JokeFetchOptions = None"
      "JokeFetchOptions.blacklistFlags empty_JokeFetchOptions = None"
      "JokeFetchOptions.type empty_JokeFetchOptions = None"
      "JokeFetchOptions.contains empty_JokeFetchOptions = None"
      "JokeFetchOptions.amount empty_JokeFetchOptions = None"
    by (simp_all add: empty_JokeFetchOptions_def)
  have gnone: "JokeOptions.categories empty_JokeOptions = None"
      "JokeOptions.blacklistFlags empty_JokeOptions = None"
      "JokeOptions.type empty_JokeOptions = None"
      "JokeOptions.searchString empty_JokeOptions = None"
      "JokeOptions.lang empty_JokeOptions = None"
      "JokeOptions.amount empty_JokeOptions = None"
    by (simp_all add: empty_JokeOptions_def)
  have one: "JokeFetchOptions.category ?d = Some (OneCategory Dark)"
    and many: "JokeFetchOptions.category ?o = Some (CategoryList [Programming, Pun])"
    and gmany: "JokeOptions.categories ?g = Some [Pun, Dark] \<and> [Pun, Dark] \<noteq> []"
    and mem: "(''safe-mode'', ''true'') \<in> set (JokeApiClient_params ?o) \<union> set (JokeGenerator_params ?g)"
    by (simp_all add: empty_JokeFetchOptions_def empty_JokeOptions_def JokeGenerator_params_def)
  note T0 = category_segment_and_parameters [of "''b''" empty_JokeFetchOptions "''g''" empty_JokeOptions]
  note T1 = category_segment_and_parameters [of "''b''" ?o "''g''" ?g]
  note T2 = category_segment_and_parameters [of "''b''" ?d "''g''" ?g]
  have 1: "JokeApiClient_categories empty_JokeFetchOptions = ''Any''"
    using none T0 [THEN conjunct2, THEN conjunct1, THEN conjunct1] by simp
  have 2: "JokeApiClient_categories ?d = ''Dark''"
    using one T2 [THEN conjunct2, THEN conjunct1, THEN conjunct2, THEN conjunct1, THEN spec, of Dark]
    by simp
  have 3: "JokeApiClient_categories ?o = ''Programming,Pun''"
    using many
      T1 [THEN conjunct2, THEN conjunct1, THEN conjunct2, THEN conjunct2, THEN spec,
          of "[Programming, Pun]"]
    by simp
  have 4: "JokeGenerator_categories empty_JokeOptions = ''Programming,Misc,Pun''"
    using gnone T0 [THEN conjunct2, THEN conjunct2, THEN conjunct1, THEN conjunct1] by simp
  have 5: "JokeGenerator_categories ?g = ''Pun,Dark''"
    using gmany
      T1 [THEN conjunct2, THEN conjunct2, THEN conjunct1, THEN conjunct2, THEN spec, of "[Pun, Dark]"]
    by simp
  have 6: "snd (''safe-mode'', ''true'') \<noteq> []"
    using T1 [THEN conjunct2, THEN conjunct2, THEN conjunct2, THEN conjunct1, THEN bspec, OF mem] .
  have 7: "''lang'' \<notin> fst ` set (JokeApiClient_params empty_JokeFetchOptions) \<and>
     ''blacklistFlags'' \<notin> fst ` set (JokeApiClient_params empty_JokeFetchOptions) \<and>
     ''type'' \<notin> fst ` set (JokeApiClient_params empty_JokeFetchOptions) \<and>
     ''contains'' \<notin> fst ` set (JokeApiClient_params empty_JokeFetchOptions) \<and>
     ''amount'' \<notin> fst ` set (JokeApiClient_params empty_JokeFetchOptions)"
    using none
      T0 [THEN conjunct2, THEN conjunct2, THEN conjunct2, THEN conjunct2, THEN conjunct1]
    by simp
  have 8: "''blacklistFlags'' \<notin> fst ` set (JokeGenerator_params empty_JokeOptions) \<and>
     ''type'' \<notin> fst ` set (JokeGenerator_params empty_JokeOptions) \<and>
     ''contains'' \<notin> fst ` set (JokeGenerator_params empty_JokeOptions) \<and>
     ''lang'' \<notin> fst ` set (JokeGenerator_params empty_JokeOptions) \<and>
     ''amount'' \<notin> fst ` set (JokeGenerator_params empty_JokeOptions)"
    using gnone
      T0 [THEN conjunct2, THEN conjunct2, THEN conjunct2, THEN conjunct2, THEN conjunct2]
    by simp
  from 1 2 3 4 5 6 7 8 show ?thesis by simp
qed

text \<open>
  C6 as stated fails on \<open>JokeGenerator.buildUrl\<close>: with no category supplied the path
  segment is the list of default safe categories, not an "any" sentinel.
\<close>

theorem generator_default_categories_counterexample:
  "JokeOptions.categories empty_JokeOptions = None \<and>
   JokeGenerator_buildUrl JOKE_API_BASE_URL empty_JokeOptions =
     ''https://v2.jokeapi.dev/joke/Programming,Misc,Pun?safe-mode=true''"
  by (simp add: url_eval)

text \<open>
  C10 (as amended). \<open>JokeGenerator.buildUrl\<close> emits \<open>safe-mode=true\<close>, once, exactly when
  \<open>blacklistFlags\<close> is absent, and then the URL ends with it; a supplied \<open>blacklistFlags\<close>
  array, also an empty one, suppresses the parameter.
\<close>

theorem safe_mode_parameter:
  "filter (\<lambda>p. fst p = ''safe-mode'') (JokeGenerator_params goptions) =
     (case JokeOptions.blacklistFlags goptions of
        None \<Rightarrow> [(''safe-mode'', ''true'')]
      | Some fs \<Rightarrow> []) \<and>
   (JokeOptions.blacklistFlags goptions = None \<longrightarrow>
      (\<exists>u. JokeGenerator_buildUrl gbase goptions = u @ ''safe-mode=true''))"
  using JokeGenerator_safe_mode JokeGenerator_url_safe_mode by blast

theorem safe_mode_parameter_witness:
  "JokeOptions.blacklistFlags (empty_JokeOptions \<lparr> JokeOptions.lang := Some ''de'' \<rparr>) = None \<and>
   (\<exists>u. JokeGenerator_buildUrl JOKE_API_BASE_URL (empty_JokeOptions \<lparr> JokeOptions.lang := Some ''de'' \<rparr>)
         = u @ ''safe-mode=true'') \<and>
   filter (\<lambda>p. fst p = ''safe-mode'')
     (JokeGenerator_params (empty_JokeOptions \<lparr> JokeOptions.blacklistFlags := Some [key_nsfw] \<rparr>)) = []"
  using safe_mode_parameter [of "empty_JokeOptions \<lparr> JokeOptions.lang := Some ''de'' \<rparr>" JOKE_API_BASE_URL]
        safe_mode_parameter [of "empty_JokeOptions \<lparr> JokeOptions.blacklistFlags := Some [key_nsfw] \<rparr>" JOKE_API_BASE_URL]
  by (simp add: empty_JokeOptions_def)

text \<open>
  C10 as stated fails for an empty list: \<open>blacklistFlags: []\<close> is a defined value, so
  \<open>!options.blacklistFlags\<close> is false and neither \<open>blacklistFlags\<close> nor \<open>safe-mode\<close> is emitted.
\<close>

theorem empty_blacklist_counterexample:
  "JokeOptions.blacklistFlags (empty_JokeOptions \<lparr> JokeOptions.blacklistFlags := Some [] \<rparr>) = Some [] \<and>
   JokeGenerator_params (empty_JokeOptions \<lparr> JokeOptions.blacklistFlags := Some [] \<rparr>) = [] \<and>
   JokeGenerator_buildUrl JOKE_API_BASE_URL (empty_JokeOptions \<lparr> JokeOptions.blacklistFlags := Some [] \<rparr>) =
     ''https://v2.jokeapi.dev/joke/Programming,Misc,Pun''"
  by (simp add: url_eval)

section \<open>Properties of classification, admission and formatting\<close>

subsection \<open>The outcome of \<open>parseResponse\<close> in each case\<close>







subsection \<open>The outcome of the \<open>try\<close> block of \<open>fetchJoke\<close> in each case\<close>









text \<open>
  C4. \<open>JokeGenerator.fetchJoke\<close> calls \<open>tryConsume\<close> first. When that is denied the outcome is
  a \<open>RateLimitError\<close> whose \<open>retryAfter\<close> is what \<open>getTimeUntilRefill\<close> returns on the limiter
  left behind, whose message names that wait in whole seconds, and nothing is passed to
  \<open>fetch\<close>; when it is granted exactly the built URL is passed to \<open>fetch\<close>.
\<close>

theorem admission_denied_fails_fast:
  "(\<not> fst (tryConsume now (rateLimiter g)) \<longrightarrow>
      fetchJoke fetch now now' g options =
        (Inl (RateLimitError
                (''Rate limit exceeded. Please try again in '' @
                   number_toString
                     (Math_ceil_div (getTimeUntilRefill now' (snd (tryConsume now (rateLimiter g)))) 1000) @
                   '' seconds.'')
                (getTimeUntilRefill now' (snd (tryConsume now (rateLimiter g))))),
         g \<lparr> rateLimiter := snd (tryConsume now (rateLimiter g)) \<rparr>, [])) \<and>
   (fst (tryConsume now (rateLimiter g)) \<longrightarrow>
      snd (snd (fetchJoke fetch now now' g options)) = [JokeGenerator_buildUrl (apiBaseUrl g) options])"
  by (simp add: fetchJoke_def Let_def split: prod.splits)

theorem admission_denied_fails_fast_witness:
  "fetchJoke (\<lambda>url. Inl NotAnError) 1000 1001
     \<lparr> rateLimiter = \<lparr> state = \<lparr> tokens = 0, lastRefill = 0 \<rparr>,
                       config = \<lparr> maxRequests = 10, windowMs = 60000 \<rparr> \<rparr>,
       apiBaseUrl = JOKE_API_BASE_URL \<rparr>
     empty_JokeOptions =
     (Inl (RateLimitError ''Rate limit exceeded. Please try again in 59 seconds.'' 58999),
      \<lparr> rateLimiter = \<lparr> state = \<lparr> tokens = 0, lastRefill = 0 \<rparr>,
                        config = \<lparr> maxRequests = 10, windowMs = 60000 \<rparr> \<rparr>,
        apiBaseUrl = JOKE_API_BASE_URL \<rparr>,
      []) \<and>
   snd (snd (fetchJoke (\<lambda>url. Inl NotAnError) 1000 1001
     \<lparr> rateLimiter = \<lparr> state = \<lparr> tokens = 1, lastRefill = 0 \<rparr>,
                       config = \<lparr> maxRequests = 10, windowMs = 60000 \<rparr> \<rparr>,
       apiBaseUrl = JOKE_API_BASE_URL \<rparr>
     empty_JokeOptions)) =
     [''https://v2.jokeapi.dev/joke/Programming,Misc,Pun?safe-mode=true'']"
proof -
  let ?g0 = "\<lparr> rateLimiter = \<lparr> state = \<lparr> tokens = 0, lastRefill = 0 \<rparr>,
                              config = \<lparr> maxRequests = 10, windowMs = 60000 \<rparr> \<rparr>,
              apiBaseUrl = JOKE_API_BASE_URL \<rparr>"
  let ?g1 = "\<lparr> rateLimiter = \<lparr> state = \<lparr> tokens = 1, lastRefill = 0 \<rparr>,
                              config = \<lparr> maxRequests = 10, windowMs = 60000 \<rparr> \<rparr>,
              apiBaseUrl = JOKE_API_BASE_URL \<rparr>"
  let ?rl0 = "\<lparr> state = \<lparr> tokens = 0, lastRefill = 0 \<rparr>,
               config = \<lparr> maxRequests = 10, windowMs = 60000 \<rparr> \<rparr>"
  let ?rl1 = "\<lparr> state = \<lparr> tokens = 1, lastRefill = 0 \<rparr>,
               config = \<lparr> maxRequests = 10, windowMs = 60000 \<rparr> \<rparr>"
  have t0: "tryConsume 1000 ?rl0 = (False, ?rl0)"
    and t1: "fst (tryConsume 1000 ?rl1)"
    by (simp_all add: tryConsume_def refill_def)
  have u: "JokeGenerator_buildUrl JOKE_API_BASE_URL empty_JokeOptions =
             ''https://v2.jokeapi.dev/joke/Programming,Misc,Pun?safe-mode=true''"
    by (simp add: url_eval)
  have 1: "fetchJoke (\<lambda>url. Inl NotAnError) 1000 1001 ?g0 empty_JokeOptions =
      (Inl (RateLimitError ''Rate limit exceeded. Please try again in 59 seconds.'' 58999), ?g0, [])"
    using admission_denied_fails_fast
            [of 1000 ?g0 "\<lambda>url. Inl NotAnError" 1001 empty_JokeOptions, THEN conjunct1]
    by (simp add: t0 getTimeUntilRefill_def Math_ceil_div_def number_toString_def
          string_of_nat.simps)
  have 2: "snd (snd (fetchJoke (\<lambda>url. Inl NotAnError) 1000 1001 ?g1 empty_JokeOptions)) =
      [''https://v2.jokeapi.dev/joke/Programming,Misc,Pun?safe-mode=true'']"
    using t1 u admission_denied_fails_fast
            [of 1000 ?g1 "\<lambda>url. Inl NotAnError" 1001 empty_JokeOptions, THEN conjunct2]
    by simp
  from 1 2 show ?thesis by simp
qed

text \<open>
  C9 (as amended). \<open>formatJoke\<close> gives the text of a single-form joke verbatim and, for a
  two-part joke, setup and delivery joined by one line break, in that order; the result is
  empty exactly for a single-form joke whose text is empty. \<open>getRandomJoke\<close> gives the text
  of a single-form payload, or the empty string when it has none, and for a two-part payload
  setup and delivery joined by one line break, which is never empty.
\<close>

theorem formatting:
  "formatJoke (SingleJoke b t) = t \<and>
   formatJoke (TwoPartJoke b s d) = s @ [CHR 0x0A] @ d \<and>
   formatJoke (TwoPartJoke b s d) \<noteq> [] \<and>
   (formatJoke j = [] \<longleftrightarrow> (\<exists>b'. j = SingleJoke b' [])) \<and>
   (JokeResponse.type jr = single \<longrightarrow>
      getRandomJoke_text (JokeResponseData jr) =
        (case JokeResponse.joke jr of Some t \<Rightarrow> t | None \<Rightarrow> [])) \<and>
   (JokeResponse.type jr = twopart \<longrightarrow>
      getRandomJoke_text (JokeResponseData jr) =
        template_string (setupText jr) @ [CHR 0x0A] @ template_string (delivery jr) \<and>
      getRandomJoke_text (JokeResponseData jr) \<noteq> [])"
  by (cases j) (auto split: option.splits)

theorem formatting_witness:
  "getRandomJoke_text (JokeResponseData mockJokeResponse) = ''Test joke'' \<and>
   getRandomJoke_text
     (JokeResponseData (mockJokeResponse \<lparr> JokeResponse.type := twopart, JokeResponse.joke := None,
        JokeResponse.setupText := Some ''Setup'', JokeResponse.delivery := Some ''Punchline'' \<rparr>))
     = ''Setup'' @ [CHR 0x0A] @ ''Punchline'' \<and>
   formatJoke (SingleJoke mockBaseJoke ''This is a one-liner'') = ''This is a one-liner'' \<and>
   formatJoke (TwoPartJoke mockBaseJoke ''A'' ''B'') = ''A'' @ [CHR 0x0A] @ ''B''"
proof -
  let ?two = "mockJokeResponse \<lparr> JokeResponse.type := twopart, JokeResponse.joke := None,
        JokeResponse.setupText := Some ''Setup'', JokeResponse.delivery := Some ''Punchline'' \<rparr>"
  note A = formatting [of mockBaseJoke "''This is a one-liner''" "''A''" "''B''"
                          "SingleJoke mockBaseJoke []" mockJokeResponse]
  note B = formatting [of mockBaseJoke "''This is a one-liner''" "''A''" "''B''"
                          "SingleJoke mockBaseJoke []" ?two]
  have 1: "getRandomJoke_text (JokeResponseData mockJokeResponse) = ''Test joke''"
    using A [THEN conjunct2, THEN conjunct2, THEN conjunct2, THEN conjunct2, THEN conjunct1]
    by (simp add: mockJokeResponse_def)
  have 2: "getRandomJoke_text (JokeResponseData ?two) = ''Setup'' @ [CHR 0x0A] @ ''Punchline''"
    using B [THEN conjunct2, THEN conjunct2, THEN conjunct2, THEN conjunct2, THEN conjunct2]
    by (simp add: mockJokeResponse_def)
  have 3: "formatJoke (SingleJoke mockBaseJoke ''This is a one-liner'') = ''This is a one-liner''"
    using A [THEN conjunct1] .
  have 4: "formatJoke (TwoPartJoke mockBaseJoke ''A'' ''B'') = ''A'' @ [CHR 0x0A] @ ''B''"
    using A [THEN conjunct2, THEN conjunct1] .
  from 1 2 3 4 show ?thesis by simp
qed

text \<open>
  C9 as stated fails for a single-form joke without text: it is classified as a success by
  both modules and formatted to the empty string.
\<close>

theorem empty_single_joke_counterexample:
  "parseResponse \<lparr> ok = True, status = 200, json = Inr (JokeData (SingleJoke mockBaseJoke [])) \<rparr> =
     Inr (JokeData (SingleJoke mockBaseJoke [])) \<and>
   formatJoke (SingleJoke mockBaseJoke []) = [] \<and>
   fetchJoke_try (Inr \<lparr> ok = True, status = 200,
       json = Inr (JokeResponseData (mockJokeResponse \<lparr> JokeResponse.joke := None \<rparr>)) \<rparr>) =
     Inr (JokeResponseData (mockJokeResponse \<lparr> JokeResponse.joke := None \<rparr>)) \<and>
   getRandomJoke_text (JokeResponseData (mockJokeResponse \<lparr> JokeResponse.joke := None \<rparr>)) = []"
  by (simp add: parseResponse_def fetchJoke_try_def mockBaseJoke_def mockJokeResponse_def)

end
